theory Spec2Isabelle
  imports Complex_Main
begin

section \<open>Numeric arrays\<close>

text \<open>
  The script computes with NumPy arrays of float64. Here a float64 is idealised as a
  \<^typ>\<open>real\<close>: rounding, NaN and the infinities are not modelled. The theorems below
  say which values the script computes by which formula and in which branch. Identities
  between outputs that hold of real numbers and, in float64, only up to rounding (that
  the points of a circle are equidistant from its centre, that a shifted centre shifts
  every point by the same amount) are not stated. The datasets are
  arrays of shape (n, 3), so a row of the design matrix is a pair, a data row a triple,
  and a covariance matrix of shape (2, 2) is a record of its four entries.
\<close>

type_synonym vec2 = "real \<times> real"

type_synonym row = "real \<times> real \<times> real"

record mat2 =
  m00 :: real
  m01 :: real
  m10 :: real
  m11 :: real

datatype error = IndexError | FileNotFoundError

text \<open>\<^verbatim>\<open>a[i]\<close> on the first axis of an array, for a non-negative \<open>i\<close>.\<close>

definition np_index :: "'a list \<Rightarrow> nat \<Rightarrow> error + 'a" where
  "np_index a i = (if i < length a then Inr (a ! i) else Inl IndexError)"

text \<open>\<^verbatim>\<open>np.diag(v)\<close> of a vector of two entries.\<close>

definition np_diag :: "vec2 \<Rightarrow> mat2" where
  "np_diag v = \<lparr>m00 = fst v, m01 = 0, m10 = 0, m11 = snd v\<rparr>"

text \<open>
  \<^verbatim>\<open>np.linalg.eigvalsh(a)\<close> of a (2, 2) array: the eigenvalues in ascending order, read
  from the lower triangle of \<open>a\<close> (the default \<^verbatim>\<open>UPLO='L'\<close>), in closed form.
\<close>

definition eigvalsh :: "mat2 \<Rightarrow> real list" where
  "eigvalsh a =
     (let c = (m00 a + m11 a) / 2;
          r = sqrt (((m00 a - m11 a) / 2)\<^sup>2 + (m10 a)\<^sup>2)
      in [c - r, c + r])"

text \<open>\<^verbatim>\<open>math.atan2(y, x)\<close>: the angle of the point \<open>(x, y)\<close> in \<open>(-\<pi>, \<pi>]\<close>.\<close>

definition atan2 :: "real \<Rightarrow> real \<Rightarrow> real" where
  "atan2 y x =
     (if 0 < x then arctan (y / x)
      else if x < 0 then (if 0 \<le> y then arctan (y / x) + pi else arctan (y / x) - pi)
      else if 0 < y then pi / 2
      else if y < 0 then - (pi / 2)
      else 0)"

text \<open>
  \<^verbatim>\<open>np.linspace(start, stop, num)\<close> with the default \<^verbatim>\<open>endpoint=True\<close>: the samples are
  \<open>i * step + start\<close> with \<open>step = (stop - start) / (num - 1)\<close>, and the last one is
  then overwritten with \<open>stop\<close>.
\<close>

definition linspace :: "real \<Rightarrow> real \<Rightarrow> nat \<Rightarrow> real list" where
  "linspace start stop num =
     (let n1 = num - 1;
          step = (stop - start) / real n1;
          y = map (\<lambda>i. real i * step + start) [0..<num]
      in if 1 < num then y[num - 1 := stop] else y)"

section \<open>Plotly traces and figures\<close>

datatype color = ColorName string | ColorArray "real list"

record scatter =
  trace_x :: "real list"
  trace_y :: "real list"
  trace_mode :: string
  marker_color :: "color option"
  marker_symbol :: "string option"
  trace_name :: "string option"

datatype pval = PStr string | PNum real | PBool bool

text \<open>A figure: its grid, its traces in the order added, each with its (row, col) cell.\<close>

record figure =
  fig_rows :: nat
  fig_cols :: nat
  subplot_titles :: "string list"
  fig_data :: "(scatter \<times> nat \<times> nat) list"
  fig_layout :: "(string \<times> pval) list"
  fig_yaxes :: "(string \<times> pval) list"

definition make_subplots :: "nat \<Rightarrow> nat \<Rightarrow> string list \<Rightarrow> figure" where
  "make_subplots r c titles =
     \<lparr>fig_rows = r, fig_cols = c, subplot_titles = titles, fig_data = [],
      fig_layout = [], fig_yaxes = []\<rparr>"

definition add_trace :: "figure \<Rightarrow> scatter \<Rightarrow> nat \<Rightarrow> nat \<Rightarrow> figure" where
  "add_trace fig tr r c = fig\<lparr>fig_data := fig_data fig @ [(tr, r, c)]\<rparr>"

definition add_traces :: "figure \<Rightarrow> scatter list \<Rightarrow> nat list \<Rightarrow> nat list \<Rightarrow> figure" where
  "add_traces fig trs rs cs = fig\<lparr>fig_data := fig_data fig @ zip trs (zip rs cs)\<rparr>"

definition update_layout :: "figure \<Rightarrow> (string \<times> pval) list \<Rightarrow> figure" where
  "update_layout fig kvs = fig\<lparr>fig_layout := fig_layout fig @ kvs\<rparr>"

definition update_yaxes :: "figure \<Rightarrow> (string \<times> pval) list \<Rightarrow> figure" where
  "update_yaxes fig kvs = fig\<lparr>fig_yaxes := fig_yaxes fig @ kvs\<rparr>"

section \<open>get_ellipse\<close>

text \<open>The two eigenvalues, largest first: \<^verbatim>\<open>l1, l2 = tuple(np.linalg.eigvalsh(cov)[::-1])\<close>.\<close>

definition ellipse_l :: "mat2 \<Rightarrow> real \<times> real" where
  "ellipse_l cov = (let e = rev (eigvalsh cov) in (e ! 0, e ! 1))"

definition ellipse_theta :: "mat2 \<Rightarrow> real" where
  "ellipse_theta cov =
     (let (l1, l2) = ellipse_l cov
      in if m01 cov \<noteq> 0 then atan2 (l1 - m00 cov) (m01 cov)
         else (if m00 cov < m11 cov then pi / 2 else 0))"

definition get_ellipse :: "vec2 \<Rightarrow> mat2 \<Rightarrow> scatter" where
  "get_ellipse mu cov =
     (let (l1, l2) = ellipse_l cov;
          theta = ellipse_theta cov;
          t = linspace 0 (2 * pi) 100;
          xs = map (\<lambda>t. (l1 * cos theta * cos t) - (l2 * sin theta * sin t)) t;
          ys = map (\<lambda>t. (l1 * sin theta * cos t) + (l2 * cos theta * sin t)) t
      in \<lparr>trace_x = map (\<lambda>v. fst mu + v) xs, trace_y = map (\<lambda>v. snd mu + v) ys,
          trace_mode = ''lines'', marker_color = Some (ColorName ''black''),
          marker_symbol = None, trace_name = None\<rparr>)"

text \<open>The points of a trace, as pairs.\<close>

definition points :: "scatter \<Rightarrow> vec2 list" where
  "points tr = zip (trace_x tr) (trace_y tr)"

text \<open>The characteristic polynomial of a (2, 2) matrix: its roots are the eigenvalues.\<close>

definition char_poly :: "mat2 \<Rightarrow> real \<Rightarrow> real" where
  "char_poly a x = (m00 a - x) * (m11 a - x) - m01 a * m10 a"


text \<open>The Euclidean distance of a point \<open>p\<close> from a centre \<open>c\<close>.\<close>

definition dist_from :: "vec2 \<Rightarrow> vec2 \<Rightarrow> real" where
  "dist_from c p = sqrt ((fst p - fst c)\<^sup>2 + (snd p - snd c)\<^sup>2)"

section \<open>Loading a dataset\<close>

text \<open>
  \<^verbatim>\<open>np.load\<close> is a parameter of the model: it maps a file name to the stored array, or
  fails. \<^verbatim>\<open>data[:, :-1]\<close> and \<^verbatim>\<open>data[:, -1]\<close> split an array of shape (n, 3) into the
  two feature columns and the last column.
\<close>

definition features :: "row list \<Rightarrow> vec2 list" where
  "features data = map (\<lambda>(a, b, c). (a, b)) data"

definition last_column :: "row list \<Rightarrow> real list" where
  "last_column data = map (\<lambda>(a, b, c). c) data"

text \<open>
  \<^verbatim>\<open>.astype(int)\<close> of a float64: truncation toward zero to an int64. A value whose
  truncation is out of the range of int64 gives the least int64, which is what the
  conversion yields on x86-64.
\<close>

definition astype_int :: "real \<Rightarrow> int" where
  "astype_int r =
     (let z = (if 0 \<le> r then \<lfloor>r\<rfloor> else \<lceil>r\<rceil>)
      in if - (2 ^ 63) \<le> z \<and> z < 2 ^ 63 then z else - (2 ^ 63))"

definition load_dataset :: "(string \<Rightarrow> error + row list) \<Rightarrow> string \<Rightarrow> error + (vec2 list \<times> int list)" where
  "load_dataset np_load filename =
     (case np_load filename of
        Inl e \<Rightarrow> Inl e
      | Inr data \<Rightarrow> Inr (features data, map astype_int (last_column data)))"

section \<open>run_perceptron\<close>

text \<open>
  The Perceptron of the IMLearn package is not part of this script. Its \<open>loss\<close> is a
  parameter, and so is its \<open>fit\<close>, given as the sequence of calls it makes to the
  callback: the estimator at that moment, and the sample and label it passes.
  The callback's mutable list \<open>losses\<close> is passed in and returned.
\<close>

definition loss_callback ::
  "('e \<Rightarrow> vec2 list \<Rightarrow> real list \<Rightarrow> real) \<Rightarrow> vec2 list \<Rightarrow> real list
     \<Rightarrow> 'e \<Rightarrow> vec2 \<Rightarrow> real \<Rightarrow> real list \<Rightarrow> real list" where
  "loss_callback loss X y estimator u1 u2 losses =
     (let a = loss estimator X y in losses @ [a])"

text \<open>
  What \<^verbatim>\<open>fit\<close> does with the callback: it calls it once for each entry of its sequence
  of calls, in order, each call on the list the previous one left.
\<close>

fun invoke_all ::
  "('e \<Rightarrow> vec2 \<Rightarrow> real \<Rightarrow> real list \<Rightarrow> real list) \<Rightarrow> ('e \<times> vec2 \<times> real) list
     \<Rightarrow> real list \<Rightarrow> real list" where
  "invoke_all callback [] losses = losses"
| "invoke_all callback ((estimator, xi, yi) # rest) losses =
     invoke_all callback rest (callback estimator xi yi losses)"

text \<open>The figure of one dataset: lines 50 to 58 of the script.\<close>

definition plot_losses :: "real list \<Rightarrow> string \<Rightarrow> figure" where
  "plot_losses losses n =
     (let fig = make_subplots 1 1 [];
          fig = add_trace fig
                  \<lparr>trace_x = map real [0..<length losses], trace_y = losses,
                   trace_mode = ''lines'', marker_color = None, marker_symbol = None,
                   trace_name = Some n\<rparr> 1 1
      in update_layout fig
           [(''title'', PStr ''Perceptron Training Loss Progression''),
            (''xaxis_title'', PStr ''Iteration''),
            (''yaxis_title'', PStr ''Training Loss''),
            (''legend_title'', PStr ''Dataset'')])"

text \<open>The body of the loop of \<^verbatim>\<open>run_perceptron\<close> once the data is loaded: the image written.\<close>

definition run_perceptron_one ::
  "('e \<Rightarrow> vec2 list \<Rightarrow> real list \<Rightarrow> real)
     \<Rightarrow> (vec2 list \<Rightarrow> real list \<Rightarrow> ('e \<times> vec2 \<times> real) list)
     \<Rightarrow> string \<Rightarrow> row list \<Rightarrow> string \<times> figure" where
  "run_perceptron_one loss fit_calls n data =
     (let X = features data;
          y = last_column data;
          losses = invoke_all (loss_callback loss X y) (fit_calls X y) [];
          fig = plot_losses losses n
      in (''perceptron_fit_'' @ n @ ''.png'', fig))"

text \<open>The loop over the datasets: the images written so far, and the error that ended the run.\<close>

fun run_perceptron_loop ::
  "(string \<Rightarrow> error + row list) \<Rightarrow> ('e \<Rightarrow> vec2 list \<Rightarrow> real list \<Rightarrow> real)
     \<Rightarrow> (vec2 list \<Rightarrow> real list \<Rightarrow> ('e \<times> vec2 \<times> real) list)
     \<Rightarrow> (string \<times> string) list \<Rightarrow> (string \<times> figure) list
     \<Rightarrow> (string \<times> figure) list \<times> error option" where
  "run_perceptron_loop np_load loss fit_calls [] written = (written, None)"
| "run_perceptron_loop np_load loss fit_calls ((n, f) # rest) written =
     (case np_load (''../datasets/'' @ f) of
        Inl e \<Rightarrow> (written, Some e)
      | Inr data \<Rightarrow>
          run_perceptron_loop np_load loss fit_calls rest
            (written @ [run_perceptron_one loss fit_calls n data]))"

definition run_perceptron ::
  "(string \<Rightarrow> error + row list) \<Rightarrow> ('e \<Rightarrow> vec2 list \<Rightarrow> real list \<Rightarrow> real)
     \<Rightarrow> (vec2 list \<Rightarrow> real list \<Rightarrow> ('e \<times> vec2 \<times> real) list)
     \<Rightarrow> (string \<times> figure) list \<times> error option" where
  "run_perceptron np_load loss fit_calls =
     run_perceptron_loop np_load loss fit_calls
       [(''Linearly Separable'', ''linearly_separable.npy''),
        (''Linearly Inseparable'', ''linearly_inseparable.npy'')] []"

section \<open>compare_gaussian_classifiers\<close>

text \<open>
  The classifiers and the accuracy metric of the IMLearn package are parameters: a fitted
  LDA is a value of type \<open>'l\<close> with its attributes \<^verbatim>\<open>mu_\<close> (one row per class) and
  \<^verbatim>\<open>cov_\<close>, a fitted Gaussian Naive Bayes a value of type \<open>'g\<close> with \<^verbatim>\<open>mu_\<close> and
  \<^verbatim>\<open>vars_\<close> (one row per class each).
\<close>

record ('l, 'g) classifiers =
  lda_fit :: "vec2 list \<Rightarrow> real list \<Rightarrow> 'l"
  lda_predict :: "'l \<Rightarrow> vec2 list \<Rightarrow> real list"
  lda_mu :: "'l \<Rightarrow> vec2 list"
  lda_cov :: "'l \<Rightarrow> mat2"
  gnb_fit :: "vec2 list \<Rightarrow> real list \<Rightarrow> 'g"
  gnb_predict :: "'g \<Rightarrow> vec2 list \<Rightarrow> real list"
  gnb_mu :: "'g \<Rightarrow> vec2 list"
  gnb_vars :: "'g \<Rightarrow> vec2 list"
  accuracy :: "real list \<Rightarrow> real list \<Rightarrow> real"

text \<open>The local variables of one iteration after lines 90 to 106.\<close>

record ('l, 'g) fitted =
  the_X :: "vec2 list"
  the_y :: "real list"
  the_lda :: 'l
  lda_prediction :: "real list"
  the_gnb :: 'g
  gnb_prediction :: "real list"
  lda_accuracy :: real
  gnb_accuracy :: real

definition fit_and_score :: "('l, 'g) classifiers \<Rightarrow> row list \<Rightarrow> ('l, 'g) fitted" where
  "fit_and_score env data =
     (let X = features data;
          y = last_column data;
          lda = lda_fit env X y;
          lda_pred = lda_predict env lda X;
          gnb = gnb_fit env X y;
          gnb_pred = gnb_predict env gnb X
      in \<lparr>the_X = X, the_y = y, the_lda = lda, lda_prediction = lda_pred, the_gnb = gnb,
          gnb_prediction = gnb_pred, lda_accuracy = accuracy env y lda_pred,
          gnb_accuracy = accuracy env y gnb_pred\<rparr>)"

text \<open>The scatter of the data points, lines 112 to 115, and of the fitted means, lines 120 to 124.\<close>

definition data_points :: "vec2 list \<Rightarrow> real list \<Rightarrow> scatter" where
  "data_points X y =
     \<lparr>trace_x = map fst X, trace_y = map snd X, trace_mode = ''markers'',
      marker_color = Some (ColorArray y), marker_symbol = Some ''circle'',
      trace_name = Some ''Data Points''\<rparr>"

definition means_trace :: "vec2 list \<Rightarrow> string \<Rightarrow> scatter" where
  "means_trace means nm =
     \<lparr>trace_x = map fst means, trace_y = map snd means, trace_mode = ''markers'',
      marker_color = Some (ColorName ''black''), marker_symbol = Some ''x'',
      trace_name = Some nm\<rparr>"

text \<open>
  The loop of lines 127 to 130 over the indices \<open>is\<close>: \<^verbatim>\<open>mu_[i]\<close> and \<^verbatim>\<open>vars_[i]\<close>
  raise IndexError out of range, which ends the run.
\<close>

fun ellipse_loop ::
  "vec2 list \<Rightarrow> vec2 list \<Rightarrow> vec2 list \<Rightarrow> mat2 \<Rightarrow> nat list \<Rightarrow> figure \<Rightarrow> error + figure" where
  "ellipse_loop g_mu g_vars l_mu l_cov [] fig = Inr fig"
| "ellipse_loop g_mu g_vars l_mu l_cov (i # rest) fig =
     (case np_index g_mu i of
        Inl e \<Rightarrow> Inl e
      | Inr gm \<Rightarrow>
          (case np_index g_vars i of
             Inl e \<Rightarrow> Inl e
           | Inr gv \<Rightarrow>
               (case np_index l_mu i of
                  Inl e \<Rightarrow> Inl e
                | Inr lm \<Rightarrow>
                    ellipse_loop g_mu g_vars l_mu l_cov rest
                      (add_traces fig [get_ellipse gm (np_diag gv), get_ellipse lm l_cov]
                         [1, 1] [1, 2]))))"

text \<open>\<^verbatim>\<open>f[:-4]\<close>: the file name without its last four characters.\<close>

definition drop_ext :: "string \<Rightarrow> string" where
  "drop_ext f = take (length f - 4) f"

text \<open>The body of the loop of \<^verbatim>\<open>compare_gaussian_classifiers\<close> once the data is loaded.\<close>

definition compare_one :: "('l, 'g) classifiers \<Rightarrow> string \<Rightarrow> row list \<Rightarrow> error + (string \<times> figure)" where
  "compare_one env f data =
     (let L = fit_and_score env data;
          X = the_X L;
          y = the_y L;
          fig = make_subplots 1 2 [''Gaussian Naive Bayes'', ''LDA''];
          fig = add_trace fig (data_points X y) 1 1;
          fig = add_trace fig (data_points X y) 1 2;
          means_lda = lda_mu env (the_lda L);
          means_gaussian_naive_bayes = gnb_mu env (the_gnb L);
          fig = add_trace fig (means_trace means_gaussian_naive_bayes ''Gaussian Naive Bayes Means'') 1 1;
          fig = add_trace fig (means_trace means_lda ''LDA Means'') 1 2
      in case ellipse_loop (gnb_mu env (the_gnb L)) (gnb_vars env (the_gnb L))
                (lda_mu env (the_lda L)) (lda_cov env (the_lda L)) [0..<3] fig of
           Inl e \<Rightarrow> Inl e
         | Inr fig \<Rightarrow>
             (let fig = update_yaxes fig [(''scaleanchor'', PStr ''x''), (''scaleratio'', PNum 1)];
                  fig = update_layout fig
                          [(''title_text'',
                            PStr ([CHR ''$'', CHR 0x5C] @ ''text{Comparing Gaussian Classifiers - ''
                                  @ drop_ext f @ '' dataset}$'')),
                           (''width'', PNum 1000), (''height'', PNum 500),
                           (''showlegend'', PBool False)]
              in Inr (''lda_and_gaussian_naive_bayes_comparison.'' @ drop_ext f @ ''.png'', fig)))"

fun compare_loop ::
  "(string \<Rightarrow> error + row list) \<Rightarrow> ('l, 'g) classifiers \<Rightarrow> string list
     \<Rightarrow> (string \<times> figure) list \<Rightarrow> (string \<times> figure) list \<times> error option" where
  "compare_loop np_load env [] written = (written, None)"
| "compare_loop np_load env (f # rest) written =
     (case np_load (''../datasets/'' @ f) of
        Inl e \<Rightarrow> (written, Some e)
      | Inr data \<Rightarrow>
          (case compare_one env f data of
             Inl e \<Rightarrow> (written, Some e)
           | Inr img \<Rightarrow> compare_loop np_load env rest (written @ [img])))"

definition compare_gaussian_classifiers ::
  "(string \<Rightarrow> error + row list) \<Rightarrow> ('l, 'g) classifiers
     \<Rightarrow> (string \<times> figure) list \<times> error option" where
  "compare_gaussian_classifiers np_load env =
     compare_loop np_load env [''gaussian1.npy'', ''gaussian2.npy''] []"

text \<open>The ellipses of one panel: its traces drawn as lines.\<close>

definition ellipses_in :: "figure \<Rightarrow> nat \<Rightarrow> scatter list" where
  "ellipses_in fig c =
     map fst (filter (\<lambda>(tr, r, c'). c' = c \<and> trace_mode tr = ''lines'') (fig_data fig))"

text \<open>
  A stand-in for the collaborators that reports \<open>k\<close> classes whatever the data: every
  mean at the origin, unit variances, the identity as shared covariance.
\<close>

definition constant_classifiers :: "nat \<Rightarrow> (unit, unit) classifiers" where
  "constant_classifiers k =
     \<lparr>lda_fit = (\<lambda>X y. ()), lda_predict = (\<lambda>l X. map (\<lambda>x. 0) X),
      lda_mu = (\<lambda>l. replicate k (0, 0)),
      lda_cov = (\<lambda>l. \<lparr>m00 = 1, m01 = 0, m10 = 0, m11 = 1\<rparr>),
      gnb_fit = (\<lambda>X y. ()), gnb_predict = (\<lambda>g X. map (\<lambda>x. 0) X),
      gnb_mu = (\<lambda>g. replicate k (0, 0)), gnb_vars = (\<lambda>g. replicate k (1, 1)),
      accuracy = (\<lambda>y p. 0)\<rparr>"

section \<open>Auxiliary lemmas\<close>

lemma ellipse_l_eq:
  "ellipse_l cov =
     ((m00 cov + m11 cov) / 2 + sqrt (((m00 cov - m11 cov) / 2)\<^sup>2 + (m10 cov)\<^sup>2),
      (m00 cov + m11 cov) / 2 - sqrt (((m00 cov - m11 cov) / 2)\<^sup>2 + (m10 cov)\<^sup>2))"
  by (simp add: ellipse_l_def eigvalsh_def Let_def)

lemma ellipse_l_ordered: "snd (ellipse_l cov) \<le> fst (ellipse_l cov)"
  by (simp add: ellipse_l_eq)

lemma char_poly_factor:
  assumes "m01 cov = m10 cov"
  shows "char_poly cov x = (x - fst (ellipse_l cov)) * (x - snd (ellipse_l cov))"
proof -
  let ?q = "((m00 cov - m11 cov) / 2)\<^sup>2 + (m10 cov)\<^sup>2"
  have q: "0 \<le> ?q" by simp
  have r: "(sqrt ?q)\<^sup>2 = ?q" using q by (rule real_sqrt_pow2)
  have "(x - ((m00 cov + m11 cov) / 2 + sqrt ?q)) * (x - ((m00 cov + m11 cov) / 2 - sqrt ?q))
      = (x - (m00 cov + m11 cov) / 2)\<^sup>2 - (sqrt ?q)\<^sup>2"
    by (simp add: power2_eq_square algebra_simps)
  also have "\<dots> = (x - (m00 cov + m11 cov) / 2)\<^sup>2 - ?q" by (simp only: r)
  also have "\<dots> = char_poly cov x"
    using assms by (simp add: char_poly_def power2_eq_square field_simps)
  finally show ?thesis by (simp add: ellipse_l_eq)
qed

lemma linspace_length: "length (linspace a b n) = n"
  by (simp add: linspace_def Let_def)

lemma linspace_nth:
  assumes "i < n" "1 < n"
  shows "linspace a b n ! i = a + real i * ((b - a) / real (n - 1))"
proof (cases "i = n - 1")
  case True
  then have "linspace a b n ! i = b"
    using assms by (simp add: linspace_def Let_def)
  moreover have "a + real (n - 1) * ((b - a) / real (n - 1)) = b"
    using assms by simp
  ultimately show ?thesis using True by simp
next
  case False
  then show ?thesis using assms by (simp add: linspace_def Let_def)
qed

lemma ts_nth: "i < 100 \<Longrightarrow> linspace 0 (2 * pi) 100 ! i = real i * (2 * pi / 99)"
  using linspace_nth [of i 100 0 "2 * pi"] by simp

lemma points_get_ellipse:
  "points (get_ellipse mu cov) =
     map (\<lambda>t. (fst mu + (fst (ellipse_l cov) * cos (ellipse_theta cov) * cos t
                          - snd (ellipse_l cov) * sin (ellipse_theta cov) * sin t),
                snd mu + (fst (ellipse_l cov) * sin (ellipse_theta cov) * cos t
                          + snd (ellipse_l cov) * cos (ellipse_theta cov) * sin t)))
         (linspace 0 (2 * pi) 100)"
  by (simp add: points_def get_ellipse_def Let_def case_prod_beta zip_map_map zip_same_conv_map o_def)

lemma ellipse_theta_diag: "ellipse_theta (np_diag v) = (if fst v < snd v then pi / 2 else 0)"
  by (simp add: ellipse_theta_def np_diag_def case_prod_beta)

lemma ellipse_l_circle: "ellipse_l (np_diag (v, v)) = (v, v)"
  by (simp add: ellipse_l_eq np_diag_def)

lemma invoke_all_loss_callback:
  "invoke_all (loss_callback loss X y) calls losses =
     losses @ map (\<lambda>(estimator, xi, yi). loss estimator X y) calls"
  by (induction calls arbitrary: losses) (auto simp: loss_callback_def)

lemma range3: "[0..<3] = [0, 1, 2]"
  by (simp add: upt_rec)

lemma ellipse_loop_range3:
  "ellipse_loop g_mu g_vars l_mu l_cov [0..<3] fig =
     (if 3 \<le> length g_mu \<and> 3 \<le> length g_vars \<and> 3 \<le> length l_mu
      then Inr (fig\<lparr>fig_data := fig_data fig @
                  [(get_ellipse (g_mu ! 0) (np_diag (g_vars ! 0)), 1, 1),
                   (get_ellipse (l_mu ! 0) l_cov, 1, 2),
                   (get_ellipse (g_mu ! 1) (np_diag (g_vars ! 1)), 1, 1),
                   (get_ellipse (l_mu ! 1) l_cov, 1, 2),
                   (get_ellipse (g_mu ! 2) (np_diag (g_vars ! 2)), 1, 1),
                   (get_ellipse (l_mu ! 2) l_cov, 1, 2)]\<rparr>)
      else Inl IndexError)"
  by (auto simp: range3 np_index_def add_traces_def)

lemma fit_and_score_simps:
  "the_X (fit_and_score env data) = features data"
  "the_y (fit_and_score env data) = last_column data"
  "the_lda (fit_and_score env data) = lda_fit env (features data) (last_column data)"
  "the_gnb (fit_and_score env data) = gnb_fit env (features data) (last_column data)"
  by (simp_all add: fit_and_score_def Let_def)

lemma trace_mode_get_ellipse: "trace_mode (get_ellipse mu cov) = ''lines''"
  by (simp add: get_ellipse_def Let_def case_prod_beta)

lemma trace_mode_data_points: "trace_mode (data_points X y) = ''markers''"
  by (simp add: data_points_def)

lemma trace_mode_means_trace: "trace_mode (means_trace ms nm) = ''markers''"
  by (simp add: means_trace_def)

lemma compare_one_eq:
  "compare_one env f data =
     (if 3 \<le> length (gnb_mu env (the_gnb (fit_and_score env data)))
         \<and> 3 \<le> length (gnb_vars env (the_gnb (fit_and_score env data)))
         \<and> 3 \<le> length (lda_mu env (the_lda (fit_and_score env data)))
      then Inr (''lda_and_gaussian_naive_bayes_comparison.'' @ drop_ext f @ ''.png'',
             \<lparr>fig_rows = 1, fig_cols = 2,
              subplot_titles = [''Gaussian Naive Bayes'', ''LDA''],
              fig_data =
                [(data_points (features data) (last_column data), 1, 1),
                 (data_points (features data) (last_column data), 1, 2),
                 (means_trace (gnb_mu env (the_gnb (fit_and_score env data)))
                    ''Gaussian Naive Bayes Means'', 1, 1),
                 (means_trace (lda_mu env (the_lda (fit_and_score env data))) ''LDA Means'', 1, 2),
                 (get_ellipse (gnb_mu env (the_gnb (fit_and_score env data)) ! 0)
                    (np_diag (gnb_vars env (the_gnb (fit_and_score env data)) ! 0)), 1, 1),
                 (get_ellipse (lda_mu env (the_lda (fit_and_score env data)) ! 0)
                    (lda_cov env (the_lda (fit_and_score env data))), 1, 2),
                 (get_ellipse (gnb_mu env (the_gnb (fit_and_score env data)) ! 1)
                    (np_diag (gnb_vars env (the_gnb (fit_and_score env data)) ! 1)), 1, 1),
                 (get_ellipse (lda_mu env (the_lda (fit_and_score env data)) ! 1)
                    (lda_cov env (the_lda (fit_and_score env data))), 1, 2),
                 (get_ellipse (gnb_mu env (the_gnb (fit_and_score env data)) ! 2)
                    (np_diag (gnb_vars env (the_gnb (fit_and_score env data)) ! 2)), 1, 1),
                 (get_ellipse (lda_mu env (the_lda (fit_and_score env data)) ! 2)
                    (lda_cov env (the_lda (fit_and_score env data))), 1, 2)],
              fig_layout =
                [(''title_text'',
                  PStr ([CHR ''$'', CHR 0x5C] @ ''text{Comparing Gaussian Classifiers - ''
                        @ drop_ext f @ '' dataset}$'')),
                 (''width'', PNum 1000), (''height'', PNum 500), (''showlegend'', PBool False)],
              fig_yaxes = [(''scaleanchor'', PStr ''x''), (''scaleratio'', PNum 1)]\<rparr>)
      else Inl IndexError)"
  unfolding compare_one_def Let_def ellipse_loop_range3
  by (simp add: fit_and_score_simps make_subplots_def add_trace_def update_yaxes_def
      update_layout_def)

lemma ellipses_in_compare:
  assumes "compare_one env f data = Inr (name, fig)"
  shows "ellipses_in fig 1 =
           map (\<lambda>i. get_ellipse (gnb_mu env (the_gnb (fit_and_score env data)) ! i)
                      (np_diag (gnb_vars env (the_gnb (fit_and_score env data)) ! i))) [0, 1, 2]"
    and "ellipses_in fig 2 =
           map (\<lambda>i. get_ellipse (lda_mu env (the_lda (fit_and_score env data)) ! i)
                      (lda_cov env (the_lda (fit_and_score env data)))) [0, 1, 2]"
  using assms
  by (auto simp: compare_one_eq ellipses_in_def trace_mode_get_ellipse trace_mode_data_points
      trace_mode_means_trace split: if_splits)

lemma constant_classifiers_simps:
  "gnb_mu (constant_classifiers k) g = replicate k (0, 0)"
  "gnb_vars (constant_classifiers k) g = replicate k (1, 1)"
  "lda_mu (constant_classifiers k) l = replicate k (0, 0)"
  "lda_cov (constant_classifiers k) l = \<lparr>m00 = 1, m01 = 0, m10 = 0, m11 = 1\<rparr>"
  by (simp_all add: constant_classifiers_def)

section \<open>The claims\<close>

text \<open>
  Claim C1. For a symmetric covariance matrix, the rotation angle of \<^verbatim>\<open>get_ellipse\<close> is
  \<open>atan2 (l1 - cov[0][0]) cov[0][1]\<close> when the off-diagonal entry is not zero, and otherwise
  \<open>\<pi>/2\<close> when \<open>cov[0][0] < cov[1][1]\<close> and \<open>0\<close> when not. Here \<open>l1\<close> is the larger
  eigenvalue: \<open>l2 \<le> l1\<close>, and the roots of the characteristic polynomial are exactly
  \<open>l1\<close> and \<open>l2\<close>.
\<close>

theorem ellipse_theta_by_branch:
  assumes "m01 cov = m10 cov"
  shows "ellipse_theta cov =
           (if m01 cov \<noteq> 0 then atan2 (fst (ellipse_l cov) - m00 cov) (m01 cov)
            else if m00 cov < m11 cov then pi / 2 else 0)
         \<and> snd (ellipse_l cov) \<le> fst (ellipse_l cov)
         \<and> (\<forall>x. char_poly cov x = 0 \<longleftrightarrow> x = fst (ellipse_l cov) \<or> x = snd (ellipse_l cov))"
proof -
  have "ellipse_theta cov =
           (if m01 cov \<noteq> 0 then atan2 (fst (ellipse_l cov) - m00 cov) (m01 cov)
            else if m00 cov < m11 cov then pi / 2 else 0)"
    by (simp add: ellipse_theta_def case_prod_beta)
  moreover have "\<forall>x. char_poly cov x = 0 \<longleftrightarrow> x = fst (ellipse_l cov) \<or> x = snd (ellipse_l cov)"
    using char_poly_factor [OF assms] by simp
  ultimately show ?thesis using ellipse_l_ordered by blast
qed

text \<open>
  The matrix with all four entries 1 has the eigenvalues 2 and 0 and the angle \<open>\<pi>/4\<close>.
\<close>

theorem ellipse_theta_by_branch_witness:
  "m01 \<lparr>m00 = 1, m01 = 1, m10 = 1, m11 = 1\<rparr> = m10 \<lparr>m00 = 1, m01 = 1, m10 = 1, m11 = 1\<rparr>
   \<and> ellipse_l \<lparr>m00 = 1, m01 = 1, m10 = 1, m11 = 1\<rparr> = (2, 0)
   \<and> ellipse_theta \<lparr>m00 = 1, m01 = 1, m10 = 1, m11 = 1\<rparr> = pi / 4"
  using ellipse_theta_by_branch [of "\<lparr>m00 = 1, m01 = 1, m10 = 1, m11 = 1\<rparr>"]
  by (simp add: ellipse_l_eq atan2_def arctan_one)

text \<open>
  Claim C2. \<^verbatim>\<open>get_ellipse\<close> returns exactly 100 points. The parameter of point \<open>i\<close> is
  \<open>t\<^sub>i = i * 2\<pi>/99\<close>, from \<open>t\<^sub>0 = 0\<close> to \<open>t\<^sub>9\<^sub>9 = 2\<pi>\<close>, and point \<open>i\<close> is
  \<open>(m[0] + l1 cos \<theta> cos t\<^sub>i - l2 sin \<theta> sin t\<^sub>i, m[1] + l1 sin \<theta> cos t\<^sub>i + l2 cos \<theta> sin t\<^sub>i)\<close>
  with \<open>l1 \<ge> l2\<close> the eigenvalues of the symmetric covariance and \<open>\<theta>\<close> the rotation angle.
\<close>

theorem get_ellipse_hundred_points:
  assumes "m01 cov = m10 cov" and "i < 100"
  shows "length (points (get_ellipse mu cov)) = 100
         \<and> linspace 0 (2 * pi) 100 ! i = real i * (2 * pi / 99)
         \<and> linspace 0 (2 * pi) 100 ! 0 = 0
         \<and> linspace 0 (2 * pi) 100 ! 99 = 2 * pi
         \<and> points (get_ellipse mu cov) ! i =
             (fst mu + fst (ellipse_l cov) * cos (ellipse_theta cov) * cos (linspace 0 (2 * pi) 100 ! i)
                     - snd (ellipse_l cov) * sin (ellipse_theta cov) * sin (linspace 0 (2 * pi) 100 ! i),
              snd mu + fst (ellipse_l cov) * sin (ellipse_theta cov) * cos (linspace 0 (2 * pi) 100 ! i)
                     + snd (ellipse_l cov) * cos (ellipse_theta cov) * sin (linspace 0 (2 * pi) 100 ! i))
         \<and> snd (ellipse_l cov) \<le> fst (ellipse_l cov)
         \<and> char_poly cov (fst (ellipse_l cov)) = 0
         \<and> char_poly cov (snd (ellipse_l cov)) = 0"
proof -
  have len: "length (points (get_ellipse mu cov)) = 100"
    by (simp add: points_get_ellipse linspace_length)
  have t0: "linspace 0 (2 * pi) 100 ! 0 = 0" using ts_nth [of 0] by simp
  have t99: "linspace 0 (2 * pi) 100 ! 99 = 2 * pi" using ts_nth [of 99] by simp
  have pt: "points (get_ellipse mu cov) ! i =
             (fst mu + fst (ellipse_l cov) * cos (ellipse_theta cov) * cos (linspace 0 (2 * pi) 100 ! i)
                     - snd (ellipse_l cov) * sin (ellipse_theta cov) * sin (linspace 0 (2 * pi) 100 ! i),
              snd mu + fst (ellipse_l cov) * sin (ellipse_theta cov) * cos (linspace 0 (2 * pi) 100 ! i)
                     + snd (ellipse_l cov) * cos (ellipse_theta cov) * sin (linspace 0 (2 * pi) 100 ! i))"
    using assms(2) by (simp add: points_get_ellipse linspace_length algebra_simps)
  have roots: "char_poly cov (fst (ellipse_l cov)) = 0" "char_poly cov (snd (ellipse_l cov)) = 0"
    using char_poly_factor [OF assms(1)] by simp_all
  show ?thesis using len t0 t99 pt roots ts_nth [OF assms(2)] ellipse_l_ordered by blast
qed

text \<open>
  Centre (1, 2), covariance diag(3, 3): point 0 is (4, 2).
\<close>

theorem get_ellipse_hundred_points_witness:
  "m01 (np_diag (3, 3)) = m10 (np_diag (3, 3)) \<and> (0::nat) < 100
   \<and> length (points (get_ellipse (1, 2) (np_diag (3, 3)))) = 100
   \<and> points (get_ellipse (1, 2) (np_diag (3, 3))) ! 0 = (4, 2)"
  using get_ellipse_hundred_points [of "np_diag (3, 3)" 0 "(1, 2)"]
  by (simp add: ellipse_l_circle ellipse_theta_diag) (simp add: np_diag_def)

text \<open>
  Claim C3, as amended. For a diagonal covariance with equal diagonal entries \<open>v\<close>, both
  eigenvalues are \<open>v\<close>, the angle is 0, and point \<open>i\<close> of the 100 points is
  \<open>(m[0] + v cos t\<^sub>i, m[1] + v sin t\<^sub>i)\<close>: the circle about the centre is traced with the
  shared eigenvalue itself as its radius, not with the square root of it.
\<close>

theorem circle_radius_is_eigenvalue:
  assumes "i < 100"
  shows "ellipse_l (np_diag (v, v)) = (v, v)
         \<and> ellipse_theta (np_diag (v, v)) = 0
         \<and> points (get_ellipse mu (np_diag (v, v))) ! i =
             (fst mu + v * cos (linspace 0 (2 * pi) 100 ! i),
              snd mu + v * sin (linspace 0 (2 * pi) 100 ! i))"
proof -
  have "points (get_ellipse mu (np_diag (v, v))) ! i =
             (fst mu + v * cos (linspace 0 (2 * pi) 100 ! i),
              snd mu + v * sin (linspace 0 (2 * pi) 100 ! i))"
    using assms
    by (simp add: points_get_ellipse linspace_length ellipse_l_circle ellipse_theta_diag)
  then show ?thesis by (simp add: ellipse_l_circle ellipse_theta_diag)
qed

text \<open>
  Centre (1, 2), covariance diag(5, 5): point 0 is (6, 2).
\<close>

theorem circle_radius_is_eigenvalue_witness:
  "(0::nat) < 100 \<and> points (get_ellipse (1, 2) (np_diag (5, 5))) ! 0 = (6, 2)"
proof -
  have t0: "linspace 0 (2 * pi) 100 ! 0 = 0" using ts_nth [of 0] by simp
  show ?thesis
    using circle_radius_is_eigenvalue [where i = 0 and v = 5 and mu = "(1, 2)"]
    by (simp add: t0)
qed

text \<open>
  Claim C3 as it is written fails. Centre (0, 0), covariance diag(4, 4): point 0 is
  (4, 0), at distance 4 from the centre, while the square root of the shared eigenvalue 4
  is 2.
\<close>

theorem circle_radius_not_sqrt:
  "dist_from (0, 0) (points (get_ellipse (0, 0) (np_diag (4, 4))) ! 0) = 4
   \<and> sqrt (fst (ellipse_l (np_diag (4, 4)))) = 2
   \<and> dist_from (0, 0) (points (get_ellipse (0, 0) (np_diag (4, 4))) ! 0)
       \<noteq> sqrt (fst (ellipse_l (np_diag (4, 4))))"
proof -
  have t0: "linspace 0 (2 * pi) 100 ! 0 = 0" using ts_nth [of 0] by simp
  have p: "points (get_ellipse (0, 0) (np_diag (4, 4))) ! 0 = (4, 0)"
    by (simp add: points_get_ellipse linspace_length ellipse_l_circle ellipse_theta_diag t0)
  have d: "dist_from (0, 0) (points (get_ellipse (0, 0) (np_diag (4, 4))) ! 0) = 4"
    by (simp add: p dist_from_def)
  have s: "sqrt (fst (ellipse_l (np_diag (4, 4)))) = 2"
    by (simp add: ellipse_l_circle)
  show ?thesis using d s by simp
qed

text \<open>
  Claim C5. After \<open>k\<close> calls, starting from the empty list, the trace of the loss callback has
  length \<open>k\<close>; its values are, in the order of the calls, the loss of the estimator of
  that call over the whole training set \<open>(X, y)\<close>, whatever sample the call passes; and
  one more call appends one value at the end.
\<close>

theorem loss_callback_trace:
  "length (invoke_all (loss_callback loss X y) calls []) = length calls
   \<and> invoke_all (loss_callback loss X y) calls [] =
       map (\<lambda>(estimator, xi, yi). loss estimator X y) calls
   \<and> invoke_all (loss_callback loss X y) (calls @ [(estimator, xi, yi)]) [] =
       invoke_all (loss_callback loss X y) calls [] @ [loss estimator X y]"
  by (simp add: invoke_all_loss_callback)

text \<open>
  Three calls with estimators 3, 1 and 0 and a loss that multiplies the estimator by the
  number of training samples, here 2.
\<close>

theorem loss_callback_trace_witness:
  "invoke_all (loss_callback (\<lambda>w X y. w * real (length X)) [(0, 0), (1, 1)] [1, - 1])
     [(3, (0, 0), 1), (1, (1, 1), - 1), (0, (0, 0), 1)] [] = [6, 2, 0]"
  using loss_callback_trace [where loss = "\<lambda>w X y. w * real (length X)"
      and X = "[(0, 0), (1, 1)]" and y = "[1, - 1]"
      and calls = "[(3, (0, 0), 1), (1, (1, 1), - 1)]"
      and estimator = 0 and xi = "(0, 0)" and yi = 1]
  by (simp add: loss_callback_def)

text \<open>
  Claim C6. The ellipse loop runs for the indices 0, 1, 2. When a fitted model has fewer than
  3 rows of means or variances (fewer than 3 classes), the iteration of the pipeline fails
  with IndexError. When there are more than 3 classes, it succeeds and each panel holds
  exactly 3 ellipses, fewer than the classes present.
\<close>

theorem three_class_ellipse_loop:
  "(length (gnb_mu env (the_gnb (fit_and_score env data))) < 3
      \<or> length (gnb_vars env (the_gnb (fit_and_score env data))) < 3
      \<or> length (lda_mu env (the_lda (fit_and_score env data))) < 3
    \<longrightarrow> compare_one env f data = Inl IndexError)
   \<and> (3 < length (gnb_mu env (the_gnb (fit_and_score env data)))
      \<and> 3 < length (gnb_vars env (the_gnb (fit_and_score env data)))
      \<and> 3 < length (lda_mu env (the_lda (fit_and_score env data)))
    \<longrightarrow> (\<exists>name fig. compare_one env f data = Inr (name, fig)
          \<and> length (ellipses_in fig 1) = 3 \<and> length (ellipses_in fig 2) = 3
          \<and> length (ellipses_in fig 1) < length (gnb_mu env (the_gnb (fit_and_score env data)))
          \<and> length (ellipses_in fig 2) < length (lda_mu env (the_lda (fit_and_score env data)))))"
proof (intro conjI impI)
  assume "length (gnb_mu env (the_gnb (fit_and_score env data))) < 3
      \<or> length (gnb_vars env (the_gnb (fit_and_score env data))) < 3
      \<or> length (lda_mu env (the_lda (fit_and_score env data))) < 3"
  then show "compare_one env f data = Inl IndexError"
    by (auto simp: compare_one_eq)
next
  assume big: "3 < length (gnb_mu env (the_gnb (fit_and_score env data)))
      \<and> 3 < length (gnb_vars env (the_gnb (fit_and_score env data)))
      \<and> 3 < length (lda_mu env (the_lda (fit_and_score env data)))"
  then obtain name fig where r: "compare_one env f data = Inr (name, fig)"
    by (simp add: compare_one_eq)
  have "length (ellipses_in fig 1) = 3" "length (ellipses_in fig 2) = 3"
    using ellipses_in_compare [OF r] by simp_all
  with r big show "\<exists>name fig. compare_one env f data = Inr (name, fig)
          \<and> length (ellipses_in fig 1) = 3 \<and> length (ellipses_in fig 2) = 3
          \<and> length (ellipses_in fig 1) < length (gnb_mu env (the_gnb (fit_and_score env data)))
          \<and> length (ellipses_in fig 2) < length (lda_mu env (the_lda (fit_and_score env data)))"
    by auto
qed

text \<open>
  Two classes: IndexError. Four classes: a figure with 3 ellipses in each panel.
\<close>

theorem three_class_ellipse_loop_witness:
  "compare_one (constant_classifiers 2) ''gaussian1.npy'' [(0, 0, 0), (1, 1, 1)] = Inl IndexError
   \<and> (\<exists>name fig. compare_one (constant_classifiers 4) ''gaussian1.npy'' [(0, 0, 0), (1, 1, 1)]
                    = Inr (name, fig)
          \<and> length (ellipses_in fig 1) = 3 \<and> length (ellipses_in fig 2) = 3)"
  using three_class_ellipse_loop [of "constant_classifiers 2" "[(0, 0, 0), (1, 1, 1)]" "''gaussian1.npy''"]
        three_class_ellipse_loop [of "constant_classifiers 4" "[(0, 0, 0), (1, 1, 1)]" "''gaussian1.npy''"]
  by (simp add: constant_classifiers_simps) blast

text \<open>
  Claim C7. When the fitted models have at least 3 classes, the comparison figure is a grid of
  1 row and 2 columns titled Gaussian Naive Bayes (left) and LDA (right). The first trace
  of each panel is the scatter of the same data points, coloured by the label column
  \<open>y\<close>. The means and the ellipses of Gaussian Naive Bayes are in column 1, those of LDA
  in column 2. Replacing the predict functions and the accuracy metric leaves the
  figure unchanged: the predictions colour nothing.
\<close>

theorem comparison_figure_panels:
  assumes "3 \<le> length (gnb_mu env (the_gnb (fit_and_score env data)))"
      and "3 \<le> length (gnb_vars env (the_gnb (fit_and_score env data)))"
      and "3 \<le> length (lda_mu env (the_lda (fit_and_score env data)))"
  shows "\<exists>name fig. compare_one env f data = Inr (name, fig)
     \<and> fig_rows fig = 1 \<and> fig_cols fig = 2
     \<and> subplot_titles fig = [''Gaussian Naive Bayes'', ''LDA'']
     \<and> fig_data fig ! 0 = (data_points (features data) (last_column data), 1, 1)
     \<and> fig_data fig ! 1 = (data_points (features data) (last_column data), 1, 2)
     \<and> marker_color (data_points (features data) (last_column data))
          = Some (ColorArray (last_column data))
     \<and> fig_data fig ! 2 =
          (means_trace (gnb_mu env (the_gnb (fit_and_score env data)))
             ''Gaussian Naive Bayes Means'', 1, 1)
     \<and> fig_data fig ! 3 =
          (means_trace (lda_mu env (the_lda (fit_and_score env data))) ''LDA Means'', 1, 2)
     \<and> ellipses_in fig 1 =
          map (\<lambda>i. get_ellipse (gnb_mu env (the_gnb (fit_and_score env data)) ! i)
                     (np_diag (gnb_vars env (the_gnb (fit_and_score env data)) ! i))) [0, 1, 2]
     \<and> ellipses_in fig 2 =
          map (\<lambda>i. get_ellipse (lda_mu env (the_lda (fit_and_score env data)) ! i)
                     (lda_cov env (the_lda (fit_and_score env data)))) [0, 1, 2]
     \<and> compare_one (env\<lparr>lda_predict := p, gnb_predict := q, accuracy := a\<rparr>) f data
          = Inr (name, fig)"
proof -
  obtain name fig where r: "compare_one env f data = Inr (name, fig)"
    using assms by (simp add: compare_one_eq)
  have same: "compare_one (env\<lparr>lda_predict := p, gnb_predict := q, accuracy := a\<rparr>) f data
                = compare_one env f data"
    by (simp add: compare_one_eq fit_and_score_simps)
  have d: "fig_data fig ! 0 = (data_points (features data) (last_column data), 1, 1)"
      "fig_data fig ! 1 = (data_points (features data) (last_column data), 1, 2)"
      "fig_data fig ! 2 = (means_trace (gnb_mu env (the_gnb (fit_and_score env data)))
             ''Gaussian Naive Bayes Means'', 1, 1)"
      "fig_data fig ! 3 =
          (means_trace (lda_mu env (the_lda (fit_and_score env data))) ''LDA Means'', 1, 2)"
      "fig_rows fig = 1" "fig_cols fig = 2"
      "subplot_titles fig = [''Gaussian Naive Bayes'', ''LDA'']"
    using r assms by (auto simp: compare_one_eq)
  have c: "marker_color (data_points (features data) (last_column data))
          = Some (ColorArray (last_column data))"
    by (simp add: data_points_def)
  show ?thesis
    using r same d c ellipses_in_compare [OF r] by simp
qed

text \<open>
  One data point (1, 2) with label 5, three classes.
\<close>

theorem comparison_figure_panels_witness:
  "3 \<le> length (gnb_mu (constant_classifiers 3)
                  (the_gnb (fit_and_score (constant_classifiers 3) [(1, 2, 5)])))
   \<and> 3 \<le> length (gnb_vars (constant_classifiers 3)
                  (the_gnb (fit_and_score (constant_classifiers 3) [(1, 2, 5)])))
   \<and> 3 \<le> length (lda_mu (constant_classifiers 3)
                  (the_lda (fit_and_score (constant_classifiers 3) [(1, 2, 5)])))
   \<and> (\<exists>name fig. compare_one (constant_classifiers 3) ''gaussian1.npy'' [(1, 2, 5)]
                    = Inr (name, fig)
         \<and> subplot_titles fig = [''Gaussian Naive Bayes'', ''LDA'']
         \<and> fig_data fig ! 0 =
              (\<lparr>trace_x = [1], trace_y = [2], trace_mode = ''markers'',
                marker_color = Some (ColorArray [5]), marker_symbol = Some ''circle'',
                trace_name = Some ''Data Points''\<rparr>, 1, 1)
         \<and> fig_data fig ! 1 =
              (\<lparr>trace_x = [1], trace_y = [2], trace_mode = ''markers'',
                marker_color = Some (ColorArray [5]), marker_symbol = Some ''circle'',
                trace_name = Some ''Data Points''\<rparr>, 1, 2))"
  using comparison_figure_panels [of "constant_classifiers 3" "[(1, 2, 5)]" "''gaussian1.npy''"]
  by (simp add: constant_classifiers_simps data_points_def features_def last_column_def) blast

text \<open>
  Claim C8. The training-curve figure holds one trace, drawn as a line, of exactly
  \<open>len(losses)\<close> points: the x-values are \<open>0, \<dots>, len(losses) - 1\<close> in order and the
  y-values are the losses in order. It is the figure \<^verbatim>\<open>run_perceptron\<close> writes for the
  trace its callback collected.
\<close>

theorem plot_losses_points:
  "fig_data (plot_losses losses n) =
     [(\<lparr>trace_x = map real [0..<length losses], trace_y = losses, trace_mode = ''lines'',
        marker_color = None, marker_symbol = None, trace_name = Some n\<rparr>, 1, 1)]
   \<and> length (points (fst (hd (fig_data (plot_losses losses n))))) = length losses
   \<and> map fst (points (fst (hd (fig_data (plot_losses losses n))))) = map real [0..<length losses]
   \<and> map snd (points (fst (hd (fig_data (plot_losses losses n))))) = losses
   \<and> snd (run_perceptron_one loss fit_calls n data) =
       plot_losses (invoke_all (loss_callback loss (features data) (last_column data))
                      (fit_calls (features data) (last_column data)) []) n"
  by (simp add: plot_losses_def make_subplots_def add_trace_def update_layout_def points_def
      run_perceptron_one_def Let_def)

text \<open>
  The trace 3, 1, 0 gives the points (0, 3), (1, 1), (2, 0).
\<close>

theorem plot_losses_points_witness:
  "points (fst (hd (fig_data (plot_losses [3, 1, 0] ''Linearly Separable''))))
     = [(0, 3), (1, 1), (2, 0)]"
proof -
  have "[0..<3] = [0, 1, 2]" by (simp add: upt_rec)
  then have "fig_data (plot_losses [3, 1, 0] ''Linearly Separable'') =
     [(\<lparr>trace_x = [0, 1, 2], trace_y = [3, 1, 0], trace_mode = ''lines'',
        marker_color = None, marker_symbol = None,
        trace_name = Some ''Linearly Separable''\<rparr>, 1, 1)]"
    using plot_losses_points [where losses = "[3, 1, 0]" and n = "''Linearly Separable''"
        and loss = "\<lambda>(e::unit) X y. 0" and fit_calls = "\<lambda>X y. []" and data = "[]"]
    by simp
  then show ?thesis by (simp add: points_def)
qed

text \<open>
  Claim C9, as amended. \<^verbatim>\<open>load_dataset\<close> returns the last column cast to integers. The two
  pipelines do not use it: the Gaussian comparison fits both models on the features and the
  last column as loaded, predicts from the features alone, and scores each prediction
  against the last column as loaded; \<^verbatim>\<open>run_perceptron\<close> fits on the last column as
  loaded and computes every loss on it, and has no prediction and no accuracy.
\<close>

theorem pipelines_use_raw_labels:
  "load_dataset np_load filename =
     (case np_load filename of
        Inl e \<Rightarrow> Inl e
      | Inr d \<Rightarrow> Inr (features d, map astype_int (last_column d)))
   \<and> the_X (fit_and_score env data) = features data
   \<and> the_y (fit_and_score env data) = last_column data
   \<and> the_lda (fit_and_score env data) = lda_fit env (features data) (last_column data)
   \<and> the_gnb (fit_and_score env data) = gnb_fit env (features data) (last_column data)
   \<and> lda_prediction (fit_and_score env data)
       = lda_predict env (the_lda (fit_and_score env data)) (features data)
   \<and> gnb_prediction (fit_and_score env data)
       = gnb_predict env (the_gnb (fit_and_score env data)) (features data)
   \<and> lda_accuracy (fit_and_score env data)
       = accuracy env (last_column data) (lda_prediction (fit_and_score env data))
   \<and> gnb_accuracy (fit_and_score env data)
       = accuracy env (last_column data) (gnb_prediction (fit_and_score env data))
   \<and> run_perceptron_one loss fit_calls n data =
       (''perceptron_fit_'' @ n @ ''.png'',
        plot_losses (map (\<lambda>(estimator, xi, yi). loss estimator (features data) (last_column data))
                       (fit_calls (features data) (last_column data))) n)"
  by (simp add: load_dataset_def fit_and_score_def Let_def run_perceptron_one_def
      invoke_all_loss_callback)

text \<open>
  Rows with the labels 1.5 and \<open>10\<^sup>2\<^sup>0\<close>: the loader returns 1 and the least int64, the
  pipeline keeps both labels as they are.
\<close>

theorem pipelines_use_raw_labels_witness:
  "load_dataset (\<lambda>f. Inr [(0, 0, 3 / 2), (1, 1, 10 ^ 20)]) ''gaussian1.npy''
     = Inr ([(0, 0), (1, 1)], [1, - 9223372036854775808])
   \<and> the_y (fit_and_score (constant_classifiers 3) [(0, 0, 3 / 2), (1, 1, 10 ^ 20)])
     = [3 / 2, 10 ^ 20]"
proof -
  have big: "\<lfloor>(10::real) ^ 20\<rfloor> = 10 ^ 20"
    using floor_of_int [of "10 ^ 20", where ?'a = real] by simp
  show ?thesis
    using pipelines_use_raw_labels [where np_load = "\<lambda>f. Inr [(0, 0, 3 / 2), (1, 1, 10 ^ 20)]"
      and filename = "''gaussian1.npy''" and env = "constant_classifiers 3"
      and data = "[(0, 0, 3 / 2), (1, 1, 10 ^ 20)]"
      and loss = "\<lambda>(e::unit) X y. 0" and fit_calls = "\<lambda>X y. []" and n = "''Linearly Separable''"]
    by (simp add: features_def last_column_def astype_int_def big)
qed

text \<open>
  Claim C9 as it is written fails: the labels are not passed to \<^verbatim>\<open>predict\<close>. Take models
  whose fit keeps nothing and whose predict returns a feature column of the array it is
  given. For the row (1, 2) the predictions are 1 and 2 whether its label is 5 or 7: they
  are computed from the features, and the label column reaches them through no argument.
\<close>

theorem predict_receives_no_labels:
  "last_column [(1, 2, 5)] = [5] \<and> last_column [(1, 2, 7)] = [7]
   \<and> lda_prediction (fit_and_score
        ((constant_classifiers 3)\<lparr>lda_predict := \<lambda>l X. map fst X, gnb_predict := \<lambda>g X. map snd X\<rparr>)
        [(1, 2, 5)]) = [1]
   \<and> lda_prediction (fit_and_score
        ((constant_classifiers 3)\<lparr>lda_predict := \<lambda>l X. map fst X, gnb_predict := \<lambda>g X. map snd X\<rparr>)
        [(1, 2, 7)]) = [1]
   \<and> gnb_prediction (fit_and_score
        ((constant_classifiers 3)\<lparr>lda_predict := \<lambda>l X. map fst X, gnb_predict := \<lambda>g X. map snd X\<rparr>)
        [(1, 2, 5)]) = [2]
   \<and> gnb_prediction (fit_and_score
        ((constant_classifiers 3)\<lparr>lda_predict := \<lambda>l X. map fst X, gnb_predict := \<lambda>g X. map snd X\<rparr>)
        [(1, 2, 7)]) = [2]"
  by (simp add: fit_and_score_def Let_def features_def last_column_def)

text \<open>
  Claim C10. The covariance \<^verbatim>\<open>np.diag(vars)\<close> has a zero off-diagonal entry, so its rotation
  angle is \<open>\<pi>/2\<close> when the first variance is the smaller one and \<open>0\<close> when not; and
  the ellipses of the Gaussian Naive Bayes panel are the ellipses of such matrices.
\<close>

theorem naive_bayes_ellipses_axis_aligned:
  "m01 (np_diag v) = 0
   \<and> ellipse_theta (np_diag v) = (if fst v < snd v then pi / 2 else 0)
   \<and> (ellipse_theta (np_diag v) = 0 \<or> ellipse_theta (np_diag v) = pi / 2)
   \<and> (case compare_one env f data of
        Inl e \<Rightarrow> True
      | Inr (name, fig) \<Rightarrow>
          ellipses_in fig 1 =
            map (\<lambda>i. get_ellipse (gnb_mu env (the_gnb (fit_and_score env data)) ! i)
                       (np_diag (gnb_vars env (the_gnb (fit_and_score env data)) ! i))) [0, 1, 2])"
proof -
  have "case compare_one env f data of
        Inl e \<Rightarrow> True
      | Inr (name, fig) \<Rightarrow>
          ellipses_in fig 1 =
            map (\<lambda>i. get_ellipse (gnb_mu env (the_gnb (fit_and_score env data)) ! i)
                       (np_diag (gnb_vars env (the_gnb (fit_and_score env data)) ! i))) [0, 1, 2]"
    using ellipses_in_compare(1) [of env f data] by (auto split: sum.splits)
  moreover have "m01 (np_diag v) = 0" by (simp add: np_diag_def)
  ultimately show ?thesis by (simp add: ellipse_theta_diag)
qed

text \<open>
  Variances (1, 4) give \<open>\<pi>/2\<close>, variances (4, 1) give 0.
\<close>

theorem naive_bayes_ellipses_axis_aligned_witness:
  "ellipse_theta (np_diag (1, 4)) = pi / 2 \<and> ellipse_theta (np_diag (4, 1)) = 0"
  using naive_bayes_ellipses_axis_aligned [where v = "(1, 4)" and env = "constant_classifiers 3" and f = "''gaussian1.npy''"
          and data = "[]"]
        naive_bayes_ellipses_axis_aligned [where v = "(4, 1)" and env = "constant_classifiers 3" and f = "''gaussian1.npy''"
          and data = "[]"]
  by simp

end
